theory Spec2Isabelle
  imports Main "HOL-Library.AList" "HOL-Library.Sublist"
begin

section \<open>Python values and operations used by proxy\_server.py\<close>

text \<open>
  The proxy handles request and response bodies as whatever \<^verbatim>\<open>json.loads\<close> returns:
  \<^verbatim>\<open>None\<close>, booleans, numbers, strings, lists and dicts with string keys. A dict is an
  association list in insertion order; lookups read it through \<open>map_of\<close> and an assignment
  \<^verbatim>\<open>d[k] = v\<close> is \<open>AList.update\<close>, which overwrites in place or appends at the end, as a
  Python dict does. A float is carried as mantissa and binary exponent; the proxy never
  computes with one.
\<close>

datatype json =
    JNull
  | JBool bool
  | JInt int
  | JFloat int int
  | JStr string
  | JArr "json list"
  | JObj "(string \<times> json) list"

type_synonym dict = "(string \<times> json) list"

text \<open>The exceptions that can leave the functions modelled here.\<close>

datatype exn =
    HTTPException nat string
  | JSONDecodeError
  | AttributeError
  | TypeError
  | KeyError
  | IndexError
  | ValueError
  | RecursionError

definition has_key :: "('k \<times> 'v) list \<Rightarrow> 'k \<Rightarrow> bool" where
  \<comment> \<open>\<^verbatim>\<open>k in d\<close> for a dict \<^verbatim>\<open>d\<close>\<close>
  "has_key d k = (map_of d k \<noteq> None)"

definition dict_get :: "('k \<times> 'v) list \<Rightarrow> 'k \<Rightarrow> 'v \<Rightarrow> 'v" where
  \<comment> \<open>\<^verbatim>\<open>d.get(k, default)\<close>\<close>
  "dict_get d k dflt = (case map_of d k of Some v \<Rightarrow> v | None \<Rightarrow> dflt)"

fun py_truthy :: "json \<Rightarrow> bool" where
  "py_truthy JNull = False"
| "py_truthy (JBool b) = b"
| "py_truthy (JInt i) = (i \<noteq> 0)"
| "py_truthy (JFloat m e) = (m \<noteq> 0)"
| "py_truthy (JStr s) = (s \<noteq> [])"
| "py_truthy (JArr xs) = (xs \<noteq> [])"
| "py_truthy (JObj d) = (d \<noteq> [])"

fun py_hashable :: "json \<Rightarrow> bool" where
  "py_hashable (JArr xs) = False"
| "py_hashable (JObj d) = False"
| "py_hashable v = True"

fun py_len :: "json \<Rightarrow> exn + nat" where
  "py_len (JArr xs) = Inr (length xs)"
| "py_len (JStr s) = Inr (length s)"
| "py_len (JObj d) = Inr (length d)"
| "py_len v = Inl TypeError"

fun py_contains :: "string \<Rightarrow> json \<Rightarrow> exn + bool" where
  \<comment> \<open>\<^verbatim>\<open>"key" in x\<close>: a key test on a dict, membership in a list, a substring test on a
      string, TypeError on anything else\<close>
  "py_contains k (JObj d) = Inr (has_key d k)"
| "py_contains k (JArr xs) = Inr (JStr k \<in> set xs)"
| "py_contains k (JStr s) = Inr (sublist k s)"
| "py_contains k v = Inl TypeError"

fun py_getitem :: "json \<Rightarrow> string \<Rightarrow> exn + json" where
  \<comment> \<open>\<^verbatim>\<open>x["key"]\<close>\<close>
  "py_getitem (JObj d) k = (case map_of d k of Some v \<Rightarrow> Inr v | None \<Rightarrow> Inl KeyError)"
| "py_getitem v k = Inl TypeError"

fun py_setitem :: "json \<Rightarrow> string \<Rightarrow> json \<Rightarrow> exn + json" where
  \<comment> \<open>\<^verbatim>\<open>x["key"] = v\<close>\<close>
  "py_setitem (JObj d) k v = Inr (JObj (AList.update k v d))"
| "py_setitem x k v = Inl TypeError"

fun py_first :: "json \<Rightarrow> exn + json" where
  \<comment> \<open>\<^verbatim>\<open>x[0]\<close>\<close>
  "py_first (JArr []) = Inl IndexError"
| "py_first (JArr (x # xs)) = Inr x"
| "py_first (JStr []) = Inl IndexError"
| "py_first (JStr (c # cs)) = Inr (JStr [c])"
| "py_first (JObj d) = Inl KeyError"
| "py_first v = Inl TypeError"

fun py_get :: "json \<Rightarrow> string \<Rightarrow> json \<Rightarrow> exn + json" where
  \<comment> \<open>\<^verbatim>\<open>x.get("key", default)\<close>: only a dict has the method\<close>
  "py_get (JObj d) k dflt = Inr (dict_get d k dflt)"
| "py_get v k dflt = Inl AttributeError"

subsection \<open>Strings\<close>

text \<open>
  A \<open>char\<close> stands for the code point of the same number. \<^verbatim>\<open>str.strip()\<close> and
  \<^verbatim>\<open>str.split()\<close> without arguments use \<^verbatim>\<open>str.isspace\<close>; below U+0100 that is
  U+0009..U+000D, U+001C..U+0020, U+0085 and U+00A0.
\<close>

definition is_space :: "char \<Rightarrow> bool" where
  "is_space c = (c \<in> set [CHR 0x09, CHR 0x0A, CHR 0x0B, CHR 0x0C, CHR 0x0D,
                           CHR 0x1C, CHR 0x1D, CHR 0x1E, CHR 0x1F, CHR 0x20,
                           CHR 0x85, CHR 0xA0])"

definition py_strip :: "string \<Rightarrow> string" where
  "py_strip s = rev (dropWhile is_space (rev (dropWhile is_space s)))"

fun split_from :: "string \<Rightarrow> string \<Rightarrow> string list" where
  \<comment> \<open>the words of the rest of the text, \<open>cur\<close> being the word read so far\<close>
  "split_from cur [] = (if cur = [] then [] else [cur])"
| "split_from cur (c # cs) =
     (if is_space c then (if cur = [] then split_from [] cs else cur # split_from [] cs)
      else split_from (cur @ [c]) cs)"

definition py_split :: "string \<Rightarrow> string list" where
  \<comment> \<open>\<^verbatim>\<open>s.split()\<close>: the maximal runs of non-whitespace characters\<close>
  "py_split s = split_from [] s"

definition startswith :: "string \<Rightarrow> string \<Rightarrow> bool" where
  \<comment> \<open>\<^verbatim>\<open>s.startswith(p)\<close>\<close>
  "startswith s p = (take (length p) s = p)"

fun py_split_len :: "json \<Rightarrow> exn + nat" where
  \<comment> \<open>\<^verbatim>\<open>len(x.split())\<close>: only a string has the method\<close>
  "py_split_len (JStr s) = Inr (length (py_split s))"
| "py_split_len v = Inl AttributeError"

section \<open>Configuration\<close>

text \<open>The pydantic models of lines 35 to 71, field for field.\<close>

record ServerConfig =
  host :: string
  port :: int
  workers :: int
  log_level :: string
  cors_enabled :: bool
  cors_origins :: "string list"

record BackendConfig =
  name :: string
  url :: string
  enabled :: bool
  timeout :: int
  max_retries :: int
  retry_delay :: int

record AuthConfig =
  enabled :: bool
  valid_api_keys :: "string list"

record LoggingConfig =
  level :: string
  format :: string
  include_request_body :: bool
  include_response_body :: bool

record ProxyConfig =
  server :: ServerConfig
  backends :: "(string \<times> BackendConfig) list"
  model_mapping :: "(string \<times> string) list"
  default_model :: string
  authentication :: AuthConfig
  logging :: LoggingConfig

section \<open>Model name mapping (lines 149 to 166)\<close>

definition reverse_map :: "(string \<times> string) list \<Rightarrow> (string \<times> string) list" where
  \<comment> \<open>\<^verbatim>\<open>{v: k for k, v in config.model_mapping.items()}\<close>: the entries are visited in
      order and a later entry overwrites the value stored for the same internal name\<close>
  "reverse_map mm = foldl (\<lambda>acc (k, v). AList.update v k acc) [] mm"

definition str_dict_get :: "(string \<times> string) list \<Rightarrow> json \<Rightarrow> exn + json" where
  \<comment> \<open>\<^verbatim>\<open>d.get(model, model)\<close> on a dict from strings to strings: the key is hashed first, so
      a list or a dict raises TypeError; a key that is not a string equals no key of \<open>d\<close>\<close>
  "str_dict_get d model =
     (if \<not> py_hashable model then Inl TypeError
      else case model of
        JStr s \<Rightarrow> (case map_of d s of Some v \<Rightarrow> Inr (JStr v) | None \<Rightarrow> Inr model)
      | _ \<Rightarrow> Inr model)"

definition map_model_name :: "ProxyConfig \<Rightarrow> json \<Rightarrow> bool \<Rightarrow> exn + json" where
  "map_model_name cfg model reverse =
     (if reverse then str_dict_get (reverse_map (model_mapping cfg)) model
      else str_dict_get (model_mapping cfg) model)"

section \<open>API key validation (lines 169 to 190)\<close>

definition validate_api_key :: "ProxyConfig \<Rightarrow> string option \<Rightarrow> bool" where
  "validate_api_key cfg authorization =
     (if \<not> AuthConfig.enabled (authentication cfg) then True
      else case authorization of
        None \<Rightarrow> False
      | Some a \<Rightarrow>
          if a = [] then False
          else if startswith a ''Bearer '' then drop 7 a \<in> set (valid_api_keys (authentication cfg))
          else False)"

section \<open>Request normalisation (lines 193 to 215)\<close>

text \<open>
  \<^verbatim>\<open>body.copy()\<close> allocates a new dict and the assignment to \<^verbatim>\<open>transformed["model"]\<close>
  writes to that new object. The dict objects live in a store, a list indexed by address;
  the function takes the store and the address of \<^verbatim>\<open>body\<close> and returns the new store with
  the address of the copy. The values of the fields are shared between the two dicts and
  are never written to. The debug log of line 213 has no effect on the result.
\<close>

type_synonym heap = "dict list"

definition dict_copy :: "heap \<Rightarrow> nat \<Rightarrow> heap \<times> nat" where
  "dict_copy h a = (h @ [h ! a], length h)"

definition transform_request_body :: "ProxyConfig \<Rightarrow> heap \<Rightarrow> nat \<Rightarrow> exn + heap \<times> nat" where
  "transform_request_body cfg h body =
     (case dict_copy h body of (h1, transformed) \<Rightarrow>
        (case map_of (h1 ! transformed) ''model'' of
           Some model \<Rightarrow>
             (case map_model_name cfg model False of
                Inl e \<Rightarrow> Inl e
              | Inr internal \<Rightarrow>
                  Inr (h1[transformed := AList.update ''model'' internal (h1 ! transformed)],
                       transformed))
         | None \<Rightarrow>
             Inr (h1[transformed :=
                       AList.update ''model'' (JStr (default_model cfg)) (h1 ! transformed)],
                  transformed)))"

definition transform_request_value :: "ProxyConfig \<Rightarrow> dict \<Rightarrow> exn + dict" where
  \<comment> \<open>the dict that \<open>transform_request_body\<close> returns, for a caller that only reads it\<close>
  "transform_request_value cfg body =
     (case transform_request_body cfg [body] 0 of
        Inl e \<Rightarrow> Inl e
      | Inr (h, transformed) \<Rightarrow> Inr (h ! transformed))"

section \<open>Response normalisation (lines 218 to 264)\<close>

definition restore_fields :: "dict \<Rightarrow> json \<Rightarrow> int \<Rightarrow> dict" where
  \<comment> \<open>lines 229 to 241: the copy, the model name, \<^verbatim>\<open>object\<close> and \<^verbatim>\<open>created\<close>;
      \<open>now\<close> is \<^verbatim>\<open>int(time.time())\<close>\<close>
  "restore_fields body original_model now =
     (let t1 = (if has_key body ''model'' then AList.update ''model'' original_model body
                else body);
          t2 = (if \<not> has_key t1 ''object'' \<and> has_key t1 ''choices''
                then AList.update ''object'' (JStr ''chat.completion'') t1 else t1)
      in if \<not> has_key t2 ''created'' then AList.update ''created'' (JInt now) t2 else t2)"

definition first_choice_content :: "json \<Rightarrow> exn + json" where
  \<comment> \<open>lines 247 to 251, \<open>choice\<close> being \<^verbatim>\<open>transformed["choices"][0]\<close>\<close>
  "first_choice_content choice =
     (case py_contains ''message'' choice of
        Inl e \<Rightarrow> Inl e
      | Inr True \<Rightarrow>
          (case py_getitem choice ''message'' of
             Inl e \<Rightarrow> Inl e
           | Inr message \<Rightarrow> py_get message ''content'' (JStr []))
      | Inr False \<Rightarrow>
          (case py_contains ''text'' choice of
             Inl e \<Rightarrow> Inl e
           | Inr True \<Rightarrow> py_getitem choice ''text''
           | Inr False \<Rightarrow> Inr (JStr [])))"

definition usage_of :: "nat \<Rightarrow> json" where
  "usage_of tokens =
     JObj [(''prompt_tokens'', JInt 0),
           (''completion_tokens'', JInt (int tokens)),
           (''total_tokens'', JInt (int tokens))]"

definition add_usage :: "dict \<Rightarrow> exn + dict" where
  \<comment> \<open>lines 245 to 258\<close>
  "add_usage transformed =
     (case map_of transformed ''choices'' of
        None \<Rightarrow> Inr transformed
      | Some choices \<Rightarrow>
          (case py_len choices of
             Inl e \<Rightarrow> Inl e
           | Inr n \<Rightarrow>
               if n > 0 then
                 (case py_first choices of
                    Inl e \<Rightarrow> Inl e
                  | Inr choice \<Rightarrow>
                      (case first_choice_content choice of
                         Inl e \<Rightarrow> Inl e
                       | Inr content \<Rightarrow>
                           (case py_split_len content of
                              Inl e \<Rightarrow> Inl e
                            | Inr tokens \<Rightarrow>
                                Inr (AList.update ''usage'' (usage_of tokens) transformed))))
               else Inr transformed))"

text \<open>
  Line 244 reads \<^verbatim>\<open>config.response.get("add_usage_stats", True)\<close>. \<^verbatim>\<open>config\<close> is a
  \<^verbatim>\<open>ProxyConfig\<close>; pydantic drops the keys of the configuration file that the class does not
  declare, so the object has the six attributes of the class and no other, and reading
  any other name raises AttributeError. Of the six, only the two dicts have a \<^verbatim>\<open>get\<close>.
\<close>

datatype config_attr =
    Attr_server ServerConfig
  | Attr_backends "(string \<times> BackendConfig) list"
  | Attr_model_mapping "(string \<times> string) list"
  | Attr_default_model string
  | Attr_authentication AuthConfig
  | Attr_logging LoggingConfig

definition ProxyConfig_getattr :: "ProxyConfig \<Rightarrow> string \<Rightarrow> exn + config_attr" where
  "ProxyConfig_getattr cfg a =
     (if a = ''server'' then Inr (Attr_server (server cfg))
      else if a = ''backends'' then Inr (Attr_backends (backends cfg))
      else if a = ''model_mapping'' then Inr (Attr_model_mapping (model_mapping cfg))
      else if a = ''default_model'' then Inr (Attr_default_model (default_model cfg))
      else if a = ''authentication'' then Inr (Attr_authentication (authentication cfg))
      else if a = ''logging'' then Inr (Attr_logging (logging cfg))
      else Inl AttributeError)"

fun attr_get_truthy :: "config_attr \<Rightarrow> string \<Rightarrow> bool \<Rightarrow> exn + bool" where
  \<comment> \<open>the truth value of \<^verbatim>\<open>attr.get(key, default)\<close>: a BackendConfig object is true, a
      string is true when it is not empty\<close>
  "attr_get_truthy (Attr_backends d) k dflt =
     Inr (case map_of d k of Some b \<Rightarrow> True | None \<Rightarrow> dflt)"
| "attr_get_truthy (Attr_model_mapping d) k dflt =
     Inr (case map_of d k of Some v \<Rightarrow> v \<noteq> [] | None \<Rightarrow> dflt)"
| "attr_get_truthy a k dflt = Inl AttributeError"

definition add_usage_stats :: "ProxyConfig \<Rightarrow> exn + bool" where
  \<comment> \<open>the left operand of the \<^verbatim>\<open>and\<close> of line 244\<close>
  "add_usage_stats cfg =
     (case ProxyConfig_getattr cfg ''response'' of
        Inl e \<Rightarrow> Inl e
      | Inr response \<Rightarrow> attr_get_truthy response ''add_usage_stats'' True)"

definition usage_step :: "bool \<Rightarrow> dict \<Rightarrow> exn + dict" where
  \<comment> \<open>lines 244 to 258, given the value of the left operand\<close>
  "usage_step stats transformed =
     (if stats \<and> \<not> has_key transformed ''usage'' then add_usage transformed
      else Inr transformed)"

definition transform_response_body :: "ProxyConfig \<Rightarrow> dict \<Rightarrow> json \<Rightarrow> int \<Rightarrow> exn + dict" where
  "transform_response_body cfg body original_model now =
     (let transformed = restore_fields body original_model now in
      case add_usage_stats cfg of
        Inl e \<Rightarrow> Inl e
      | Inr stats \<Rightarrow> usage_step stats transformed)"

section \<open>Streaming (lines 325 to 357)\<close>

text \<open>
  \<^verbatim>\<open>json.loads\<close> and \<^verbatim>\<open>json.dumps\<close> belong to Python's library: they are parameters.
  \<open>loads\<close> returns the value parsed or the exception the library raises: JSONDecodeError
  for a text that is not JSON, and also ValueError (an integer literal longer than the
  interpreter's digit limit) or RecursionError (nesting too deep), which are no
  JSONDecodeError. The only handler of the loop is for JSONDecodeError, so any other
  exception, of \<open>loads\<close> or of the lines after it, ends the generator.
\<close>

definition sse :: "string \<Rightarrow> string" where
  \<comment> \<open>\<^verbatim>\<open>f"data: {payload}\n\n"\<close>\<close>
  "sse payload = ''data: '' @ payload @ [CHR 0x0A, CHR 0x0A]"

definition stream_line ::
  "(string \<Rightarrow> exn + json) \<Rightarrow> (json \<Rightarrow> string) \<Rightarrow> json \<Rightarrow> string \<Rightarrow> exn + string list" where
  \<comment> \<open>one round of the loop: what it yields for \<open>line\<close>, or the exception it raises\<close>
  "stream_line loads dumps original_model line =
     (if py_strip line = [] then Inr []
      else if startswith line ''data: '' then
        (let data = drop 6 line in
         if py_strip data = ''[DONE]'' then Inr [sse ''[DONE]'']
         else case loads data of
                Inl JSONDecodeError \<Rightarrow> Inr [sse data]
              | Inl e \<Rightarrow> Inl e
              | Inr chunk \<Rightarrow>
                  (case py_contains ''model'' chunk of
                     Inl e \<Rightarrow> Inl e
                   | Inr True \<Rightarrow>
                       (case py_setitem chunk ''model'' original_model of
                          Inl e \<Rightarrow> Inl e
                        | Inr chunk' \<Rightarrow> Inr [sse (dumps chunk')])
                   | Inr False \<Rightarrow> Inr [sse (dumps chunk)]))
      else Inr [])"

fun stream_response ::
  "(string \<Rightarrow> exn + json) \<Rightarrow> (json \<Rightarrow> string) \<Rightarrow> json \<Rightarrow> string list
     \<Rightarrow> string list \<times> exn option" where
  \<comment> \<open>everything the generator yields over the backend's lines, and the exception that
      ended it, if one did\<close>
  "stream_response loads dumps original_model [] = ([], None)"
| "stream_response loads dumps original_model (line # rest) =
     (case stream_line loads dumps original_model line of
        Inl e \<Rightarrow> ([], Some e)
      | Inr out \<Rightarrow>
          (case stream_response loads dumps original_model rest of
             (outs, r) \<Rightarrow> (out @ outs, r)))"

section \<open>Forwarding (lines 267 to 322)\<close>

text \<open>
  The httpx client is a parameter: a function from the call it is given to what the call
  does, which is to return a response, to raise a timeout, or to raise another
  \<^verbatim>\<open>httpx.RequestError\<close> with its message. A response shows its status code, its text, its
  lines and what \<^verbatim>\<open>response.json()\<close> gives: the value parsed, or the exception raised.
\<close>

record httpx_response =
  status_code :: nat
  response_text :: string
  response_lines :: "string list"
  response_json :: "exn + json"

datatype send_result = Returned httpx_response | TimeoutException | RequestError string

record outbound =
  out_method :: string
  out_url :: string
  out_json :: "dict option"
  out_headers :: "(string \<times> string) list"
  out_timeout_none :: bool

definition send :: "(outbound \<Rightarrow> send_result) \<Rightarrow> outbound \<Rightarrow> (exn + httpx_response) \<times> outbound list" where
  \<comment> \<open>one call of the client inside the \<^verbatim>\<open>try\<close> of lines 297 to 322, with the calls made\<close>
  "send http_client call =
     (case http_client call of
        Returned response \<Rightarrow> (Inr response, [call])
      | TimeoutException \<Rightarrow> (Inl (HTTPException 504 ''Backend timeout''), [call])
      | RequestError msg \<Rightarrow> (Inl (HTTPException 502 (''Backend error: '' @ msg)), [call]))"

definition forward_request ::
  "ProxyConfig \<Rightarrow> (outbound \<Rightarrow> send_result) \<Rightarrow> string \<Rightarrow> string \<Rightarrow> dict option
     \<Rightarrow> (string \<times> string) list option \<Rightarrow> json \<Rightarrow> (exn + httpx_response) \<times> outbound list" where
  "forward_request cfg http_client method path body headers stream =
     (case map_of (backends cfg) ''primary'' of
        None \<Rightarrow> (Inl KeyError, [])
      | Some backend \<Rightarrow>
          (let target = BackendConfig.url backend @ path;
               forward_headers =
                 AList.delete ''Authorization''
                   (AList.delete ''authorization'' (case headers of Some h \<Rightarrow> h | None \<Rightarrow> []))
           in if method = ''GET'' then
                send http_client \<lparr>out_method = ''GET'', out_url = target, out_json = None,
                  out_headers = forward_headers, out_timeout_none = False\<rparr>
              else if method = ''POST'' then
                (if py_truthy stream then
                   send http_client \<lparr>out_method = ''POST'', out_url = target, out_json = body,
                     out_headers = forward_headers, out_timeout_none = True\<rparr>
                 else
                   send http_client \<lparr>out_method = ''POST'', out_url = target, out_json = body,
                     out_headers = forward_headers, out_timeout_none = False\<rparr>)
              else if method = ''DELETE'' then
                send http_client \<lparr>out_method = ''DELETE'', out_url = target, out_json = None,
                  out_headers = forward_headers, out_timeout_none = False\<rparr>
              else (Inl (HTTPException 405 (''Method '' @ method @ '' not supported'')), [])))"

section \<open>The completion endpoints (lines 404 to 490)\<close>

text \<open>
  What the endpoint needs from outside the repository: the httpx client, the JSON library,
  \<^verbatim>\<open>str(e)\<close> on an exception, and the clock.
\<close>

record env =
  http_client :: "outbound \<Rightarrow> send_result"
  json_loads :: "string \<Rightarrow> exn + json"
  json_dumps :: "json \<Rightarrow> string"
  exn_str :: "exn \<Rightarrow> string"
  time_now :: int

datatype endpoint_result =
    StreamingResponse "string list \<times> exn option" string
  | JSONResponse json

fun transform_response_any :: "ProxyConfig \<Rightarrow> json \<Rightarrow> json \<Rightarrow> int \<Rightarrow> exn + json" where
  \<comment> \<open>\<open>transform_response_body\<close> on whatever \<^verbatim>\<open>response.json()\<close> returned. A list has
      \<^verbatim>\<open>copy\<close> and \<^verbatim>\<open>in\<close> but no assignment or lookup by key; the other values have no
      \<^verbatim>\<open>copy\<close>.\<close>
  "transform_response_any cfg (JObj body) original_model now =
     (case transform_response_body cfg body original_model now of
        Inl e \<Rightarrow> Inl e
      | Inr transformed \<Rightarrow> Inr (JObj transformed))"
| "transform_response_any cfg (JArr xs) original_model now =
     (if JStr ''model'' \<in> set xs then Inl TypeError
      else if JStr ''object'' \<notin> set xs \<and> JStr ''choices'' \<in> set xs then Inl TypeError
      else if JStr ''created'' \<notin> set xs then Inl TypeError
      else case add_usage_stats cfg of
             Inl e \<Rightarrow> Inl e
           | Inr stats \<Rightarrow>
               if stats \<and> JStr ''usage'' \<notin> set xs \<and> JStr ''choices'' \<in> set xs
               then Inl TypeError else Inr (JArr xs))"
| "transform_response_any cfg v original_model now = Inl AttributeError"

definition pipeline ::
  "ProxyConfig \<Rightarrow> env \<Rightarrow> string \<Rightarrow> string \<Rightarrow> string option \<Rightarrow> exn + json
     \<Rightarrow> (exn + endpoint_result) \<times> outbound list" where
  \<comment> \<open>the body of the \<^verbatim>\<open>try\<close> of lines 414 to 445 and of lines 460 to 486, which differ in
      the path and in the default of \<^verbatim>\<open>original_model\<close>; \<open>request_json\<close> is what
      \<^verbatim>\<open>await request.json()\<close> gives: the value parsed, or the exception raised\<close>
  "pipeline cfg ev path default_name authorization request_json =
     (case request_json of
        Inl e \<Rightarrow> (Inl e, [])
      | Inr (JObj body) \<Rightarrow>
          (let original_model = dict_get body ''model'' (JStr default_name);
               stream = dict_get body ''stream'' (JBool False)
           in case transform_request_value cfg body of
                Inl e \<Rightarrow> (Inl e, [])
              | Inr transformed_body \<Rightarrow>
                  (case forward_request cfg (http_client ev) ''POST'' path (Some transformed_body)
                          (Some [(''authorization'',
                                  case authorization of Some a \<Rightarrow> a | None \<Rightarrow> [])])
                          stream of
                     (Inl e, calls) \<Rightarrow> (Inl e, calls)
                   | (Inr response, calls) \<Rightarrow>
                       if py_truthy stream then
                         (Inr (StreamingResponse
                                 (stream_response (json_loads ev) (json_dumps ev) original_model
                                    (response_lines response))
                                 ''text/event-stream''),
                          calls)
                       else if status_code response = 200 then
                         (case response_json response of
                            Inl e \<Rightarrow> (Inl e, calls)
                          | Inr response_data \<Rightarrow>
                              (case transform_response_any cfg response_data original_model
                                      (time_now ev) of
                                 Inl e \<Rightarrow> (Inl e, calls)
                               | Inr transformed_response \<Rightarrow>
                                   (Inr (JSONResponse transformed_response), calls)))
                       else (Inl (HTTPException (status_code response) (response_text response)),
                             calls)))
      | Inr other \<Rightarrow> (Inl AttributeError, []))"

definition chat_completions ::
  "ProxyConfig \<Rightarrow> env \<Rightarrow> string option \<Rightarrow> exn + json \<Rightarrow> (exn + endpoint_result) \<times> outbound list" where
  "chat_completions cfg ev authorization request_json =
     (if \<not> validate_api_key cfg authorization
      then (Inl (HTTPException 401 ''Invalid API key''), [])
      else case pipeline cfg ev ''/v1/chat/completions'' ''gpt-3.5-turbo'' authorization
                  request_json of
             (Inl JSONDecodeError, calls) \<Rightarrow>
               (Inl (HTTPException 400 ''Invalid JSON in request body''), calls)
           | (Inl e, calls) \<Rightarrow> (Inl (HTTPException 500 (exn_str ev e)), calls)
           | (Inr r, calls) \<Rightarrow> (Inr r, calls))"

definition completions ::
  "ProxyConfig \<Rightarrow> env \<Rightarrow> string option \<Rightarrow> exn + json \<Rightarrow> (exn + endpoint_result) \<times> outbound list" where
  "completions cfg ev authorization request_json =
     (if \<not> validate_api_key cfg authorization
      then (Inl (HTTPException 401 ''Invalid API key''), [])
      else case pipeline cfg ev ''/v1/completions'' ''text-davinci-003'' authorization
                  request_json of
             (Inl e, calls) \<Rightarrow> (Inl (HTTPException 500 (exn_str ev e)), calls)
           | (Inr r, calls) \<Rightarrow> (Inr r, calls))"

text \<open>
  What the client sees: FastAPI answers a raised HTTPException with its status code and
  any other exception with 500; both response classes are built with their default status.
\<close>

fun client_status :: "exn + endpoint_result \<Rightarrow> nat" where
  "client_status (Inl (HTTPException code detail)) = code"
| "client_status (Inl e) = 500"
| "client_status (Inr r) = 200"

fun media_type :: "exn + endpoint_result \<Rightarrow> string" where
  "media_type (Inr (StreamingResponse content mt)) = mt"
| "media_type r = ''application/json''"

text \<open>
  A response body on which lines 229 to 241 have nothing left to do: its \<^verbatim>\<open>model\<close>, if
  it has one, is the original model name, it has \<^verbatim>\<open>created\<close>, and it has \<^verbatim>\<open>object\<close>
  or no \<^verbatim>\<open>choices\<close>.
\<close>

definition settled :: "dict \<Rightarrow> json \<Rightarrow> bool" where
  "settled d m = ((map_of d ''model'' = None \<or> map_of d ''model'' = Some m) \<and>
                  has_key d ''created'' \<and> (has_key d ''object'' \<or> \<not> has_key d ''choices''))"

section \<open>A configuration and an environment to evaluate the functions on\<close>

definition example_config :: ProxyConfig where
  "example_config =
     \<lparr>server = \<lparr>host = ''0.0.0.0'', port = 8080, workers = 1, log_level = ''info'',
                cors_enabled = True, cors_origins = [''*'']\<rparr>,
      backends = [(''primary'', \<lparr>name = ''LM Studio'', url = ''http://10.50.10.14:1234'',
                                 enabled = True, timeout = 300, max_retries = 3,
                                 retry_delay = 1\<rparr>)],
      model_mapping = [(''gpt-3.5-turbo'', ''llama-3.1-instruct-13b''),
                       (''gpt-4'', ''llama-3.1-instruct-13b''),
                       (''text-embedding-ada-002'', ''nomic-embed-text'')],
      default_model = ''llama-3.1-instruct-13b'',
      authentication = \<lparr>enabled = True, valid_api_keys = [''abc'']\<rparr>,
      logging = \<lparr>level = ''INFO'', format = ''text'', include_request_body = False,
                 include_response_body = False\<rparr>\<rparr>"

text \<open>
  \<^verbatim>\<open>json.loads\<close> and \<^verbatim>\<open>json.dumps\<close> on the texts and values of the examples below: what
  the library does for each of them. A text of more than 4300 digits is an integer over
  the interpreter's limit for the conversion, and the library raises ValueError for it.
  \<open>sample_loads\<close> is JSONDecodeError on every other text.
\<close>

definition is_digit :: "char \<Rightarrow> bool" where
  "is_digit c = (c \<in> set ''0123456789'')"

definition sample_loads :: "string \<Rightarrow> exn + json" where
  \<open>sample_loads s =
     (if 4300 < length s \<and> list_all is_digit s then Inl ValueError
      else case map_of [(''{}'', JObj []),
                        (''5'', JInt 5),
                        (''{"model": "internal-x"}'', JObj [(''model'', JStr ''internal-x'')])] s of
             Some v \<Rightarrow> Inr v
           | None \<Rightarrow> Inl JSONDecodeError)\<close>

definition sample_dumps :: "json \<Rightarrow> string" where
  \<open>sample_dumps v =
     (if v = JObj [] then ''{}''
      else if v = JInt 5 then ''5''
      else if v = JObj [(''model'', JStr ''internal-x'')] then ''{"model": "internal-x"}''
      else if v = JObj [(''model'', JStr ''gpt-3.5-turbo'')] then ''{"model": "gpt-3.5-turbo"}''
      else [])\<close>

definition sample_response :: "nat \<Rightarrow> httpx_response" where
  \<comment> \<open>a backend response with the given status code\<close>
  \<open>sample_response code =
     \<lparr>status_code = code,
      response_text = ''{"error": "model not loaded"}'',
      response_lines = [''data: {"model": "internal-x"}'', [], ''data: [DONE]''],
      response_json = Inl JSONDecodeError\<rparr>\<close>

text \<open>
  \<^verbatim>\<open>str(e)\<close> on an HTTPException is its status code in decimal, a colon, a space and its
  detail. The messages of the other exceptions are not modelled: one text stands for them.
\<close>

definition digit_char :: "nat \<Rightarrow> char" where
  "digit_char d = ''0123456789'' ! d"

function decimal :: "nat \<Rightarrow> string" where
  "decimal n = (if n < 10 then [digit_char n] else decimal (n div 10) @ [digit_char (n mod 10)])"
  by pat_completeness auto
termination
  by (relation "measure (\<lambda>n. n)") auto

declare decimal.simps [simp del]

definition str_of_exn :: "exn \<Rightarrow> string" where
  "str_of_exn e =
     (case e of
        HTTPException code detail \<Rightarrow> decimal code @ '': '' @ detail
      | _ \<Rightarrow> ''error'')"

definition example_env :: "send_result \<Rightarrow> env" where
  \<comment> \<open>an environment whose backend answers every call with \<open>r\<close>\<close>
  "example_env r =
     \<lparr>http_client = (\<lambda>call. r),
      json_loads = sample_loads,
      json_dumps = sample_dumps,
      exn_str = str_of_exn,
      time_now = 1677652288\<rparr>"

section \<open>Properties of the model name mapping\<close>

text \<open>
  The reverse map is built by visiting the entries in order. An internal name that no
  entry has as its value is not a key of the reverse map, and the key of the last entry
  with a given value is what the reverse map holds for it.
\<close>

lemma foldl_update_absent:
  "i \<notin> snd ` set mm \<Longrightarrow>
     map_of (foldl (\<lambda>acc (k, v). AList.update v k acc) acc mm) i = map_of acc i"
proof (induction mm arbitrary: acc)
  case Nil
  then show ?case by simp
next
  case (Cons p mm)
  obtain k v where p: "p = (k, v)" by (cases p)
  from Cons.prems p have "v \<noteq> i" and "i \<notin> snd ` set mm" by auto
  with Cons.IH [of "AList.update v k acc"] p show ?case
    by (simp add: update_conv')
qed

lemma reverse_map_absent: "i \<notin> snd ` set mm \<Longrightarrow> map_of (reverse_map mm) i = None"
  by (simp add: reverse_map_def foldl_update_absent)

lemma reverse_map_last:
  assumes "i \<notin> snd ` set post"
  shows "map_of (reverse_map (pre @ (k, i) # post)) i = Some k"
  using assms by (simp add: reverse_map_def foldl_update_absent update_conv')

text \<open>
  Claim C5. A name that is not a key of the model mapping is returned unchanged by the
  forward lookup, without an exception; a name that is not a value of the mapping is
  returned unchanged by the reverse lookup.
\<close>

theorem unmapped_names_pass_through:
  "(x \<notin> fst ` set (model_mapping cfg) \<longrightarrow> map_model_name cfg (JStr x) False = Inr (JStr x)) \<and>
   (x \<notin> snd ` set (model_mapping cfg) \<longrightarrow> map_model_name cfg (JStr x) True = Inr (JStr x))"
proof (intro conjI impI)
  assume "x \<notin> fst ` set (model_mapping cfg)"
  then have "map_of (model_mapping cfg) x = None"
    by (simp add: map_of_eq_None_iff)
  then show "map_model_name cfg (JStr x) False = Inr (JStr x)"
    by (simp add: map_model_name_def str_dict_get_def)
next
  assume "x \<notin> snd ` set (model_mapping cfg)"
  then have "map_of (reverse_map (model_mapping cfg)) x = None"
    by (rule reverse_map_absent)
  then show "map_model_name cfg (JStr x) True = Inr (JStr x)"
    by (simp add: map_model_name_def str_dict_get_def)
qed

theorem unmapped_names_pass_through_witness:
  "map_model_name example_config (JStr ''some-random-model'') False = Inr (JStr ''some-random-model'') \<and>
   map_model_name example_config (JStr ''some-random-model'') True = Inr (JStr ''some-random-model'')"
proof -
  have a: "''some-random-model'' \<notin> fst ` set (model_mapping example_config)"
    by (simp add: example_config_def)
  have b: "''some-random-model'' \<notin> snd ` set (model_mapping example_config)"
    by (simp add: example_config_def)
  from unmapped_names_pass_through [of "''some-random-model''" example_config] a b
  show ?thesis by blast
qed

text \<open>
  Claim C6. If the internal name of the external name \<open>e\<close> has \<open>e\<close> as its only
  preimage, the forward lookup followed by the reverse lookup returns \<open>e\<close>. When several
  entries have the same internal name, the reverse lookup returns the external name of
  the last of them in the order of the mapping.
\<close>

theorem round_trip_and_last_entry_wins:
  "(distinct (map fst (model_mapping cfg)) \<and> map_of (model_mapping cfg) e = Some i \<and>
      (\<forall>k. map_of (model_mapping cfg) k = Some i \<longrightarrow> k = e)
     \<longrightarrow> map_model_name cfg (JStr e) False = Inr (JStr i) \<and>
         map_model_name cfg (JStr i) True = Inr (JStr e)) \<and>
   (model_mapping cfg = pre @ (k, i') # post \<and> i' \<notin> snd ` set post
     \<longrightarrow> map_model_name cfg (JStr i') True = Inr (JStr k))"
proof (intro conjI impI)
  assume h: "distinct (map fst (model_mapping cfg)) \<and> map_of (model_mapping cfg) e = Some i \<and>
      (\<forall>k. map_of (model_mapping cfg) k = Some i \<longrightarrow> k = e)"
  then have fwd: "map_of (model_mapping cfg) e = Some i" by simp
  then show "map_model_name cfg (JStr e) False = Inr (JStr i)"
    by (simp add: map_model_name_def str_dict_get_def)
  from fwd have "(e, i) \<in> set (model_mapping cfg)" by (rule map_of_SomeD)
  then have "\<exists>p \<in> set (model_mapping cfg). snd p = i" by force
  then obtain pre p post where sp: "model_mapping cfg = pre @ p # post" "snd p = i"
    "\<forall>z \<in> set post. snd z \<noteq> i"
    by (rule split_list_last_propE)
  obtain k where p: "p = (k, i)" using sp(2) by (cases p) simp
  have "(k, i) \<in> set (model_mapping cfg)" using sp(1) p by simp
  with h have "map_of (model_mapping cfg) k = Some i" by simp
  with h have "k = e" by blast
  moreover have "i \<notin> snd ` set post" using sp(3) by auto
  ultimately have "map_of (reverse_map (model_mapping cfg)) i = Some e"
    using sp(1) p reverse_map_last [of i post pre k] by simp
  then show "map_model_name cfg (JStr i) True = Inr (JStr e)"
    by (simp add: map_model_name_def str_dict_get_def)
next
  assume "model_mapping cfg = pre @ (k, i') # post \<and> i' \<notin> snd ` set post"
  then have "map_of (reverse_map (model_mapping cfg)) i' = Some k"
    using reverse_map_last [of i' post pre k] by simp
  then show "map_model_name cfg (JStr i') True = Inr (JStr k)"
    by (simp add: map_model_name_def str_dict_get_def)
qed

theorem round_trip_and_last_entry_wins_witness:
  "map_model_name example_config (JStr ''text-embedding-ada-002'') False = Inr (JStr ''nomic-embed-text'') \<and>
   map_model_name example_config (JStr ''nomic-embed-text'') True = Inr (JStr ''text-embedding-ada-002'') \<and>
   map_model_name example_config (JStr ''llama-3.1-instruct-13b'') True = Inr (JStr ''gpt-4'')"
proof -
  let ?mm = "model_mapping example_config"
  have d: "distinct (map fst ?mm)" by (simp add: example_config_def)
  have f: "map_of ?mm ''text-embedding-ada-002'' = Some ''nomic-embed-text''"
    by (simp add: example_config_def)
  have u: "\<forall>k. map_of ?mm k = Some ''nomic-embed-text'' \<longrightarrow> k = ''text-embedding-ada-002''"
    by (simp add: example_config_def)
  have s: "?mm = [(''gpt-3.5-turbo'', ''llama-3.1-instruct-13b'')] @
             (''gpt-4'', ''llama-3.1-instruct-13b'') # [(''text-embedding-ada-002'', ''nomic-embed-text'')]"
    by (simp add: example_config_def)
  have n: "''llama-3.1-instruct-13b'' \<notin> snd ` set [(''text-embedding-ada-002'', ''nomic-embed-text'')]"
    by simp
  from round_trip_and_last_entry_wins
         [of example_config "''text-embedding-ada-002''" "''nomic-embed-text''"
             "[(''gpt-3.5-turbo'', ''llama-3.1-instruct-13b'')]" "''gpt-4''"
             "''llama-3.1-instruct-13b''" "[(''text-embedding-ada-002'', ''nomic-embed-text'')]"]
       d f u s n
  show ?thesis by blast
qed

section \<open>Properties of the API key check\<close>

lemma startswith_iff: "startswith s p = (\<exists>rest. s = p @ rest)"
  unfolding startswith_def
proof
  assume "take (length p) s = p"
  then have "s = p @ drop (length p) s" by (metis append_take_drop_id)
  then show "\<exists>rest. s = p @ rest" ..
next
  assume "\<exists>rest. s = p @ rest"
  then show "take (length p) s = p" by auto
qed

text \<open>
  Claim C10. With authentication enabled, \<open>validate_api_key\<close> is true exactly when the
  header is present, is the text \<^verbatim>\<open>Bearer \<close> (in this spelling) followed by a token, and
  the token is in the configured list; a missing header, another scheme or another
  spelling of the prefix is rejected. With authentication disabled it is true for every
  header, a missing one included. When it is false the chat endpoint raises the 401
  before anything else happens: no call to the backend has been made.
\<close>

theorem api_key_validation:
  "(AuthConfig.enabled (authentication cfg) \<longrightarrow>
      validate_api_key cfg authorization =
        (\<exists>token. authorization = Some (''Bearer '' @ token) \<and>
                 token \<in> set (valid_api_keys (authentication cfg)))) \<and>
   (\<not> AuthConfig.enabled (authentication cfg) \<longrightarrow> validate_api_key cfg authorization) \<and>
   (\<not> validate_api_key cfg authorization \<longrightarrow>
      chat_completions cfg ev authorization request_json =
        (Inl (HTTPException 401 ''Invalid API key''), []))"
proof (intro conjI impI)
  assume en: "AuthConfig.enabled (authentication cfg)"
  show "validate_api_key cfg authorization =
        (\<exists>token. authorization = Some (''Bearer '' @ token) \<and>
                 token \<in> set (valid_api_keys (authentication cfg)))"
  proof (cases authorization)
    case None
    with en show ?thesis by (simp add: validate_api_key_def)
  next
    case (Some a)
    show ?thesis
    proof (cases "startswith a ''Bearer ''")
      case True
      then obtain rest where a: "a = ''Bearer '' @ rest" by (auto simp: startswith_iff)
      with en Some True show ?thesis by (simp add: validate_api_key_def)
    next
      case False
      then have "\<And>token. a \<noteq> ''Bearer '' @ token" by (auto simp: startswith_iff)
      with en Some False show ?thesis by (simp add: validate_api_key_def)
    qed
  qed
next
  assume "\<not> AuthConfig.enabled (authentication cfg)"
  then show "validate_api_key cfg authorization" by (simp add: validate_api_key_def)
next
  assume "\<not> validate_api_key cfg authorization"
  then show "chat_completions cfg ev authorization request_json =
        (Inl (HTTPException 401 ''Invalid API key''), [])"
    by (simp add: chat_completions_def)
qed


theorem api_key_validation_witness:
  "validate_api_key example_config (Some ''Bearer abc'') \<and>
   \<not> validate_api_key example_config (Some ''Bearer xyz'') \<and>
   \<not> validate_api_key example_config None \<and>
   \<not> validate_api_key example_config (Some ''bearer abc'') \<and>
   \<not> validate_api_key example_config (Some ''Basic abc'') \<and>
   validate_api_key
     (example_config\<lparr>authentication := \<lparr>enabled = False, valid_api_keys = [''abc'']\<rparr>\<rparr>) None \<and>
   chat_completions example_config (example_env TimeoutException) (Some ''bearer abc'')
       (Inr (JObj [(''model'', JStr ''gpt-4'')])) =
     (Inl (HTTPException 401 ''Invalid API key''), [])"
proof -
  have en: "AuthConfig.enabled (authentication example_config)"
    and keys: "valid_api_keys (authentication example_config) = [''abc'']"
    by (simp_all add: example_config_def)
  have ok: "validate_api_key example_config (Some ''Bearer abc'')"
    using api_key_validation [of example_config "Some ''Bearer abc''"] en keys by simp
  have xyz: "\<not> validate_api_key example_config (Some ''Bearer xyz'')"
    using api_key_validation [of example_config "Some ''Bearer xyz''"] en keys by simp
  have none: "\<not> validate_api_key example_config None"
    using api_key_validation [of example_config None] en by simp
  have lower: "\<not> validate_api_key example_config (Some ''bearer abc'')"
    using api_key_validation [of example_config "Some ''bearer abc''"] en by simp
  have basic: "\<not> validate_api_key example_config (Some ''Basic abc'')"
    using api_key_validation [of example_config "Some ''Basic abc''"] en by simp
  have off: "validate_api_key
     (example_config\<lparr>authentication := \<lparr>enabled = False, valid_api_keys = [''abc'']\<rparr>\<rparr>) None"
    using api_key_validation
      [of "example_config\<lparr>authentication := \<lparr>enabled = False, valid_api_keys = [''abc'']\<rparr>\<rparr>" None]
    by simp
  have rejected: "chat_completions example_config (example_env TimeoutException)
       (Some ''bearer abc'') (Inr (JObj [(''model'', JStr ''gpt-4'')])) =
     (Inl (HTTPException 401 ''Invalid API key''), [])"
    using api_key_validation [of example_config "Some ''bearer abc''"] lower by blast
  from ok xyz none lower basic off rejected show ?thesis by blast
qed

section \<open>Properties of the stream transformer\<close>

text \<open>
  A line that starts with \<^verbatim>\<open>data: \<close> is never blank, so it reaches the second test of
  the loop, and its payload is what follows the prefix.
\<close>

lemma not_space_d: "\<not> is_space CHR ''d''"
  by (simp add: is_space_def)

lemma py_strip_data_line: "py_strip (''data: '' @ payload) \<noteq> []"
proof -
  have "dropWhile is_space (''data: '' @ payload) = ''data: '' @ payload"
    by (simp add: not_space_d)
  moreover have "CHR ''d'' \<in> set (rev (''data: '' @ payload))" by simp
  ultimately have "dropWhile is_space (rev (dropWhile is_space (''data: '' @ payload))) \<noteq> []"
    using not_space_d by (metis dropWhile_eq_Nil_conv)
  then show ?thesis by (simp add: py_strip_def)
qed

lemma startswith_data_line: "startswith (''data: '' @ payload) ''data: ''"
  by (simp add: startswith_def)

lemma stream_line_blank: "py_strip line = [] \<Longrightarrow> stream_line loads dumps m line = Inr []"
  by (simp add: stream_line_def)

lemma stream_line_done:
  "py_strip payload = ''[DONE]'' \<Longrightarrow>
     stream_line loads dumps m (''data: '' @ payload) =
       Inr [''data: [DONE]'' @ [CHR 0x0A, CHR 0x0A]]"
  using py_strip_data_line [of payload] startswith_data_line [of payload]
  by (simp add: stream_line_def sse_def)

lemma stream_line_object:
  "py_strip payload \<noteq> ''[DONE]'' \<Longrightarrow> loads payload = Inr (JObj d) \<Longrightarrow>
     stream_line loads dumps m (''data: '' @ payload) =
       Inr [''data: '' @
            dumps (JObj (if has_key d ''model'' then AList.update ''model'' m d else d)) @
            [CHR 0x0A, CHR 0x0A]]"
  using py_strip_data_line [of payload] startswith_data_line [of payload]
  by (simp add: stream_line_def sse_def)

lemma stream_line_malformed:
  "py_strip payload \<noteq> ''[DONE]'' \<Longrightarrow> loads payload = Inl JSONDecodeError \<Longrightarrow>
     stream_line loads dumps m (''data: '' @ payload) =
       Inr [''data: '' @ payload @ [CHR 0x0A, CHR 0x0A]]"
  using py_strip_data_line [of payload] startswith_data_line [of payload]
  by (simp add: stream_line_def sse_def)

lemma stream_line_loads_raises:
  "py_strip payload \<noteq> ''[DONE]'' \<Longrightarrow> loads payload = Inl e \<Longrightarrow> e \<noteq> JSONDecodeError \<Longrightarrow>
     stream_line loads dumps m (''data: '' @ payload) = Inl e"
  using py_strip_data_line [of payload] startswith_data_line [of payload]
  by (cases e) (simp_all add: stream_line_def)

lemma stream_response_step:
  "stream_line loads dumps m line = Inr out \<Longrightarrow>
     stream_response loads dumps m (line # rest) =
       (out @ fst (stream_response loads dumps m rest), snd (stream_response loads dumps m rest))"
  by (simp add: split_def)

lemma stream_response_append:
  "snd (stream_response loads dumps m pre) = None \<Longrightarrow>
     stream_response loads dumps m (pre @ post) =
       (fst (stream_response loads dumps m pre) @ fst (stream_response loads dumps m post),
        snd (stream_response loads dumps m post))"
proof (induction pre)
  case Nil
  then show ?case by simp
next
  case (Cons line pre)
  show ?case
  proof (cases "stream_line loads dumps m line")
    case (Inl e)
    with Cons.prems show ?thesis by simp
  next
    case (Inr out)
    with Cons.prems have "snd (stream_response loads dumps m pre) = None"
      by (simp add: split_def)
    with Cons.IH Inr show ?thesis by (simp add: split_def)
  qed
qed

lemma py_strip_digits: "py_strip (replicate 5000 CHR ''1'') \<noteq> ''[DONE]''"
proof -
  have "length (py_strip (replicate 5000 CHR ''1'')) = 5000"
    by (simp add: py_strip_def is_space_def)
  then show ?thesis by auto
qed

lemmas stream_eval =
  stream_line_def sse_def startswith_def py_strip_def is_space_def sample_loads_def
  sample_dumps_def has_key_def

text \<open>
  Claim C3, as the code has it. For every line the generator consumes, whatever follows
  it: a line that is empty or only whitespace yields nothing; a \<^verbatim>\<open>data: \<close> line whose
  payload is not the sentinel and parses as a JSON object yields the text \<^verbatim>\<open>data: \<close>,
  the object serialised again, its \<^verbatim>\<open>model\<close> field overwritten by the original model name
  when it has one, and two line feeds; a \<^verbatim>\<open>data: \<close> line whose payload is not the sentinel
  and for which the parser raises JSONDecodeError yields the text \<^verbatim>\<open>data: \<close>, the payload
  as it is, and two line feeds. In each case no exception is raised and the generator goes
  on with the next line.
\<close>

theorem stream_line_cases:
  "(py_strip line = [] \<longrightarrow>
      stream_response loads dumps m (line # rest) = stream_response loads dumps m rest) \<and>
   (py_strip payload \<noteq> ''[DONE]'' \<and> loads payload = Inr (JObj d) \<longrightarrow>
      stream_response loads dumps m ((''data: '' @ payload) # rest) =
        ((''data: '' @
          dumps (JObj (if has_key d ''model'' then AList.update ''model'' m d else d)) @
          [CHR 0x0A, CHR 0x0A])
           # fst (stream_response loads dumps m rest),
         snd (stream_response loads dumps m rest))) \<and>
   (py_strip payload \<noteq> ''[DONE]'' \<and> loads payload = Inl JSONDecodeError \<longrightarrow>
      stream_response loads dumps m ((''data: '' @ payload) # rest) =
        ((''data: '' @ payload @ [CHR 0x0A, CHR 0x0A])
           # fst (stream_response loads dumps m rest),
         snd (stream_response loads dumps m rest)))"
proof (intro conjI impI)
  assume "py_strip line = []"
  then show "stream_response loads dumps m (line # rest) = stream_response loads dumps m rest"
    using stream_response_step [OF stream_line_blank, of line loads dumps m rest] by simp
next
  assume "py_strip payload \<noteq> ''[DONE]'' \<and> loads payload = Inr (JObj d)"
  then show "stream_response loads dumps m ((''data: '' @ payload) # rest) =
        ((''data: '' @
          dumps (JObj (if has_key d ''model'' then AList.update ''model'' m d else d)) @
          [CHR 0x0A, CHR 0x0A])
           # fst (stream_response loads dumps m rest),
         snd (stream_response loads dumps m rest))"
    using stream_response_step [OF stream_line_object, of payload loads d dumps m rest] by simp
next
  assume "py_strip payload \<noteq> ''[DONE]'' \<and> loads payload = Inl JSONDecodeError"
  then show "stream_response loads dumps m ((''data: '' @ payload) # rest) =
        ((''data: '' @ payload @ [CHR 0x0A, CHR 0x0A])
           # fst (stream_response loads dumps m rest),
         snd (stream_response loads dumps m rest))"
    using stream_response_step [OF stream_line_malformed, of payload loads dumps m rest] by simp
qed

theorem stream_line_cases_witness:
  \<open>stream_response sample_loads sample_dumps (JStr ''gpt-3.5-turbo'') [''   ''] = ([], None) \<and>
   stream_response sample_loads sample_dumps (JStr ''gpt-3.5-turbo'')
       [''data: {"model": "internal-x"}''] =
     ([''data: {"model": "gpt-3.5-turbo"}'' @ [CHR 0x0A, CHR 0x0A]], None) \<and>
   stream_response sample_loads sample_dumps (JStr ''gpt-3.5-turbo'')
       [''data: {not valid json''] =
     ([''data: {not valid json'' @ [CHR 0x0A, CHR 0x0A]], None)\<close>
proof -
  have blank: "py_strip ''   '' = []"
    by (simp add: py_strip_def is_space_def)
  have p1: \<open>py_strip ''{"model": "internal-x"}'' \<noteq> ''[DONE]''\<close>
    by (simp add: py_strip_def is_space_def)
  have l1: \<open>sample_loads ''{"model": "internal-x"}'' = Inr (JObj [(''model'', JStr ''internal-x'')])\<close>
    by (simp add: sample_loads_def)
  have p2: "py_strip ''{not valid json'' \<noteq> ''[DONE]''"
    by (simp add: py_strip_def is_space_def)
  have l2: "sample_loads ''{not valid json'' = Inl JSONDecodeError"
    by (simp add: sample_loads_def)
  have a: "stream_response sample_loads sample_dumps (JStr ''gpt-3.5-turbo'') [''   ''] = ([], None)"
    using stream_line_cases [where line = "''   ''" and loads = sample_loads
        and dumps = sample_dumps and m = "JStr ''gpt-3.5-turbo''" and rest = "[]"] blank
    by simp
  have b: \<open>stream_response sample_loads sample_dumps (JStr ''gpt-3.5-turbo'')
       [''data: {"model": "internal-x"}''] =
     ([''data: {"model": "gpt-3.5-turbo"}'' @ [CHR 0x0A, CHR 0x0A]], None)\<close>
    using stream_line_cases [where payload = \<open>''{"model": "internal-x"}''\<close>
        and loads = sample_loads and dumps = sample_dumps and m = "JStr ''gpt-3.5-turbo''"
        and rest = "[]" and d = "[(''model'', JStr ''internal-x'')]"] p1 l1
    by (simp add: has_key_def sample_dumps_def)
  have c: "stream_response sample_loads sample_dumps (JStr ''gpt-3.5-turbo'')
       [''data: {not valid json''] = ([''data: {not valid json'' @ [CHR 0x0A, CHR 0x0A]], None)"
    using stream_line_cases [where payload = "''{not valid json''"
        and loads = sample_loads and dumps = sample_dumps and m = "JStr ''gpt-3.5-turbo''"
        and rest = "[]"] p2 l2
    by simp
  from a b c show ?thesis by blast
qed

text \<open>
  The claim was stated for every payload that parses as JSON and for every payload that
  does not. The payload \<^verbatim>\<open>5\<close> parses, and \<^verbatim>\<open>"model" in 5\<close> raises TypeError, which the
  handler for JSONDecodeError does not catch: nothing is yielded and the generator ends.
  A payload of 5000 digits does not parse, the parser raising ValueError, which the
  handler does not catch either. A payload that is the sentinel with whitespace around it
  does not parse and is re-emitted trimmed.
\<close>

theorem stream_line_counterexample:
  "sample_loads ''5'' = Inr (JInt 5) \<and>
   stream_response sample_loads sample_dumps (JStr ''gpt-3.5-turbo'') [''data: 5''] =
     ([], Some TypeError) \<and>
   sample_loads (replicate 5000 CHR ''1'') = Inl ValueError \<and>
   stream_response sample_loads sample_dumps (JStr ''gpt-3.5-turbo'')
       [''data: '' @ replicate 5000 CHR ''1''] =
     ([], Some ValueError) \<and>
   sample_loads '' [DONE]'' = Inl JSONDecodeError \<and>
   stream_response sample_loads sample_dumps (JStr ''gpt-3.5-turbo'') [''data:  [DONE]''] =
     ([''data: [DONE]'' @ [CHR 0x0A, CHR 0x0A]], None)"
proof -
  have five: "sample_loads ''5'' = Inr (JInt 5) \<and>
      stream_response sample_loads sample_dumps (JStr ''gpt-3.5-turbo'') [''data: 5''] =
        ([], Some TypeError)"
    by (simp add: stream_eval)
  have big: "sample_loads (replicate 5000 CHR ''1'') = Inl ValueError"
    by (simp add: sample_loads_def is_digit_def list_all_iff)
  have "stream_line sample_loads sample_dumps (JStr ''gpt-3.5-turbo'')
          (''data: '' @ replicate 5000 CHR ''1'') = Inl ValueError"
    using stream_line_loads_raises
      [of "replicate 5000 CHR ''1''" sample_loads ValueError sample_dumps "JStr ''gpt-3.5-turbo''"]
      py_strip_digits big
    by simp
  then have raised: "stream_response sample_loads sample_dumps (JStr ''gpt-3.5-turbo'')
       [''data: '' @ replicate 5000 CHR ''1''] = ([], Some ValueError)"
    by simp
  have padded: "sample_loads '' [DONE]'' = Inl JSONDecodeError \<and>
      stream_response sample_loads sample_dumps (JStr ''gpt-3.5-turbo'') [''data:  [DONE]''] =
        ([''data: [DONE]'' @ [CHR 0x0A, CHR 0x0A]], None)"
    by (simp add: stream_eval)
  from five big raised padded show ?thesis by blast
qed

text \<open>
  Claim C4, as the code has it. A \<^verbatim>\<open>data: \<close> line whose payload, trimmed, is
  \<^verbatim>\<open>[DONE]\<close> yields the text \<^verbatim>\<open>data: [DONE]\<close> followed by two line feeds. The loop then
  continues: the lines after the sentinel are handled like any other line, and the output
  ends where the backend's lines end.
\<close>

theorem sentinel_then_continue:
  "py_strip payload = ''[DONE]'' \<longrightarrow>
     stream_line loads dumps m (''data: '' @ payload) =
       Inr [''data: [DONE]'' @ [CHR 0x0A, CHR 0x0A]] \<and>
     (snd (stream_response loads dumps m pre) = None \<longrightarrow>
        stream_response loads dumps m (pre @ (''data: '' @ payload) # post) =
          (fst (stream_response loads dumps m pre) @
             (''data: [DONE]'' @ [CHR 0x0A, CHR 0x0A]) # fst (stream_response loads dumps m post),
           snd (stream_response loads dumps m post)))"
proof (intro impI conjI)
  assume p: "py_strip payload = ''[DONE]''"
  then show l: "stream_line loads dumps m (''data: '' @ payload) =
       Inr [''data: [DONE]'' @ [CHR 0x0A, CHR 0x0A]]"
    by (rule stream_line_done)
  assume "snd (stream_response loads dumps m pre) = None"
  then show "stream_response loads dumps m (pre @ (''data: '' @ payload) # post) =
          (fst (stream_response loads dumps m pre) @
             (''data: [DONE]'' @ [CHR 0x0A, CHR 0x0A]) # fst (stream_response loads dumps m post),
           snd (stream_response loads dumps m post))"
    using stream_response_append [of loads dumps m pre "(''data: '' @ payload) # post"]
      stream_response_step [OF l, of post]
    by simp
qed

theorem sentinel_then_continue_witness:
  \<open>stream_response sample_loads sample_dumps (JStr ''gpt-3.5-turbo'')
       ([''data: {"model": "internal-x"}'', []] @ (''data: '' @ ''[DONE]'')
          # [''data: {not valid json'']) =
     ([''data: {"model": "gpt-3.5-turbo"}'' @ [CHR 0x0A, CHR 0x0A],
       ''data: [DONE]'' @ [CHR 0x0A, CHR 0x0A],
       ''data: {not valid json'' @ [CHR 0x0A, CHR 0x0A]], None)\<close>
proof -
  have p: "py_strip ''[DONE]'' = ''[DONE]''"
    by (simp add: py_strip_def is_space_def)
  have pre: \<open>stream_response sample_loads sample_dumps (JStr ''gpt-3.5-turbo'')
       [''data: {"model": "internal-x"}'', []] =
     ([''data: {"model": "gpt-3.5-turbo"}'' @ [CHR 0x0A, CHR 0x0A]], None)\<close>
    by (simp add: stream_eval)
  have post: "stream_response sample_loads sample_dumps (JStr ''gpt-3.5-turbo'')
       [''data: {not valid json''] = ([''data: {not valid json'' @ [CHR 0x0A, CHR 0x0A]], None)"
    by (simp add: stream_eval)
  show ?thesis
    using sentinel_then_continue [where payload = "''[DONE]''" and loads = sample_loads
        and dumps = sample_dumps and m = "JStr ''gpt-3.5-turbo''"
        and pre = \<open>[''data: {"model": "internal-x"}'', []]\<close>
        and post = "[''data: {not valid json'']"] p pre post
    by simp
qed

text \<open>
  The claim was that nothing is produced for the lines after the sentinel. A line after
  it is still re-emitted.
\<close>

theorem sentinel_stops_counterexample:
  "stream_response sample_loads sample_dumps (JStr ''gpt-3.5-turbo'')
       [''data: [DONE]'', ''data: {not valid json''] =
     ([''data: [DONE]'' @ [CHR 0x0A, CHR 0x0A],
       ''data: {not valid json'' @ [CHR 0x0A, CHR 0x0A]], None)"
  by (simp add: stream_eval)

section \<open>Properties of the request normaliser\<close>


lemma map_model_name_unhashable:
  "\<not> py_hashable v \<Longrightarrow> map_model_name cfg v reverse = Inl TypeError"
  by (simp add: map_model_name_def str_dict_get_def)



lemma transform_request_body_raises:
  assumes "map_of (h ! body) ''model'' = Some v" and "\<not> py_hashable v"
  shows "transform_request_body cfg h body = Inl TypeError"
  using assms map_model_name_unhashable [of v cfg False]
  by (simp add: transform_request_body_def dict_copy_def)

lemma transform_request_value_eq:
  "transform_request_value cfg body =
     (case map_of body ''model'' of
        Some v \<Rightarrow> (case map_model_name cfg v False of
                     Inl e \<Rightarrow> Inl e
                   | Inr internal \<Rightarrow> Inr (AList.update ''model'' internal body))
      | None \<Rightarrow> Inr (AList.update ''model'' (JStr (default_model cfg)) body))"
  by (simp add: transform_request_value_def transform_request_body_def dict_copy_def
      split: option.splits sum.splits)




section \<open>Properties of the response normaliser\<close>

text \<open>
  \<^verbatim>\<open>ProxyConfig\<close> declares no attribute \<^verbatim>\<open>response\<close>, so the left operand of line 244
  raises AttributeError for every configuration, and with it every call of
  \<open>transform_response_body\<close>: lines 229 to 241 have run on the copy, which is lost.
\<close>

lemma add_usage_stats_raises: "add_usage_stats cfg = Inl AttributeError"
  by (simp add: add_usage_stats_def ProxyConfig_getattr_def)

lemma transform_response_body_raises:
  "transform_response_body cfg body original_model now = Inl AttributeError"
  by (simp add: transform_response_body_def add_usage_stats_raises)

text \<open>
  What lines 245 to 258 do when they are reached, that is for a value of the left operand
  of line 244 given from outside: the usage estimate is the number of words of the first
  choice's text, and a body that the function returned is returned unchanged when it is
  given to the function again.
\<close>

lemma has_key_update: "has_key (AList.update k v d) k' = (k' = k \<or> has_key d k')"
  by (auto simp: has_key_def update_conv')

lemma update_same: "map_of d k = Some v \<Longrightarrow> AList.update k v d = d"
  by (rule update_triv)

lemma restore_fields_settled: "settled d m \<Longrightarrow> restore_fields d m now = d"
  by (auto simp: settled_def restore_fields_def has_key_def update_same)

lemma settled_restore_fields: "settled (restore_fields b m now) m"
  by (auto simp: settled_def restore_fields_def Let_def has_key_update update_conv' has_key_def)

lemma settled_usage: "settled d m \<Longrightarrow> settled (AList.update ''usage'' u d) m"
  by (auto simp: settled_def has_key_update update_conv' has_key_def)

lemma add_usage_cases:
  "add_usage d = Inr d' \<Longrightarrow> d' = d \<or> (\<exists>u. d' = AList.update ''usage'' u d)"
  by (auto simp: add_usage_def split: option.splits sum.splits if_splits)

lemma usage_step_fixed:
  assumes "usage_step stats d = Inr d'"
  shows "usage_step stats d' = Inr d'"
proof (cases "stats \<and> \<not> has_key d ''usage''")
  case False
  with assms show ?thesis by (auto simp: usage_step_def)
next
  case True
  with assms have a: "add_usage d = Inr d'" by (simp add: usage_step_def)
  from add_usage_cases [OF a] show ?thesis
  proof
    assume "d' = d"
    with a True show ?thesis by (simp add: usage_step_def)
  next
    assume "\<exists>u. d' = AList.update ''usage'' u d"
    then show ?thesis by (auto simp: usage_step_def has_key_update)
  qed
qed

lemma usage_step_settled:
  assumes "usage_step stats d = Inr d'" and "settled d m"
  shows "settled d' m"
proof (cases "stats \<and> \<not> has_key d ''usage''")
  case False
  with assms show ?thesis by (auto simp: usage_step_def)
next
  case True
  with assms have "add_usage d = Inr d'" by (simp add: usage_step_def)
  from add_usage_cases [OF this] assms(2) show ?thesis
    by (auto intro: settled_usage)
qed

lemma normalise_twice:
  assumes "usage_step stats (restore_fields b m now) = Inr b'"
  shows "usage_step stats (restore_fields b' m now') = Inr b'"
proof -
  have "settled b' m"
    using usage_step_settled [OF assms settled_restore_fields] .
  then have "restore_fields b' m now' = b'" by (rule restore_fields_settled)
  with usage_step_fixed [OF assms] show ?thesis by simp
qed

lemma usage_step_backfill:
  assumes "\<not> has_key d ''usage''"
    and "map_of d ''choices'' = Some (JArr (choice # rest))"
    and "first_choice_content choice = Inr (JStr text)"
  shows "usage_step True d = Inr (AList.update ''usage'' (usage_of (length (py_split text))) d)"
  using assms by (simp add: usage_step_def add_usage_def)

lemma first_choice_content_message:
  "map_of c ''message'' = Some (JObj msg) \<Longrightarrow>
     first_choice_content (JObj c) = Inr (dict_get msg ''content'' (JStr []))"
  by (simp add: first_choice_content_def has_key_def)

lemma first_choice_content_text:
  "map_of c ''message'' = None \<Longrightarrow> map_of c ''text'' = Some v \<Longrightarrow>
     first_choice_content (JObj c) = Inr v"
  by (simp add: first_choice_content_def has_key_def)

lemma usage_step_example:
  "usage_step True
     (restore_fields
        [(''choices'', JArr [JObj [(''message'', JObj [(''content'', JStr ''one two three'')])]])]
        m now) =
   Inr [(''choices'', JArr [JObj [(''message'', JObj [(''content'', JStr ''one two three'')])]]),
        (''object'', JStr ''chat.completion''),
        (''created'', JInt now),
        (''usage'', JObj [(''prompt_tokens'', JInt 0), (''completion_tokens'', JInt 3),
                          (''total_tokens'', JInt 3)])]"
  by (simp add: usage_step_def add_usage_def restore_fields_def has_key_def
      first_choice_content_def dict_get_def py_split_def is_space_def usage_of_def)

text \<open>
  Claim C1. The claim is that a body without \<^verbatim>\<open>usage\<close> and with a non-empty
  \<^verbatim>\<open>choices\<close> list comes back with a synthesised \<^verbatim>\<open>usage\<close>. On the body
  \<^verbatim>\<open>{"choices":[{"message":{"content":"one two three"}}]}\<close> the function raises
  AttributeError instead (lemma \<open>usage_step_example\<close> shows the three tokens the
  remaining lines would count).
\<close>

theorem usage_backfill_raises:
  "transform_response_body cfg
     [(''choices'', JArr [JObj [(''message'', JObj [(''content'', JStr ''one two three'')])]])]
     original_model now = Inl AttributeError"
  by (rule transform_response_body_raises)

text \<open>
  Claim C8. The claim is that normalising a normalised body gives the same body. No call
  returns a body: the first application raises AttributeError, and so does the
  composition (lemma \<open>normalise_twice\<close> is the idempotence of the lines around line 244).
\<close>

theorem normalise_twice_raises:
  "(case transform_response_body cfg body original_model now of
      Inl e \<Rightarrow> Inl e
    | Inr normalised \<Rightarrow> transform_response_body cfg normalised original_model now') =
   Inl AttributeError \<and>
   (\<forall>normalised. transform_response_body cfg body original_model now \<noteq> Inr normalised)"
  by (simp add: transform_response_body_raises)

section \<open>Properties of the forwarder and of the completion endpoints\<close>

text \<open>
  A POST makes one call of the client; a timeout becomes HTTPException 504 and any other
  request error HTTPException 502 with the error's text. In the endpoints the call stands
  inside a \<^verbatim>\<open>try\<close> whose last handler is \<^verbatim>\<open>except Exception\<close>, and HTTPException is
  an Exception: whatever \<open>forward_request\<close> raises leaves the endpoint as
  HTTPException 500.
\<close>

lemma forward_request_post:
  assumes "map_of (backends cfg) ''primary'' = Some backend"
  shows "fst (forward_request cfg client ''POST'' path body headers stream) =
           (case client \<lparr>out_method = ''POST'', out_url = BackendConfig.url backend @ path,
                    out_json = body,
                    out_headers = AList.delete ''Authorization''
                      (AList.delete ''authorization'' (case headers of Some h \<Rightarrow> h | None \<Rightarrow> [])),
                    out_timeout_none = py_truthy stream\<rparr> of
              Returned response \<Rightarrow> Inr response
            | TimeoutException \<Rightarrow> Inl (HTTPException 504 ''Backend timeout'')
            | RequestError msg \<Rightarrow> Inl (HTTPException 502 (''Backend error: '' @ msg)))"
  using assms
  by (cases "py_truthy stream")
     (simp_all add: forward_request_def send_def Let_def split: send_result.splits)

lemma forward_request_returned:
  assumes "map_of (backends cfg) ''primary'' = Some backend"
    and "\<And>call. client call = Returned response"
  shows "fst (forward_request cfg client ''POST'' path body headers stream) = Inr response"
  using assms by (simp add: forward_request_post)

lemma forward_request_timeout:
  assumes "map_of (backends cfg) ''primary'' = Some backend"
    and "\<And>call. client call = TimeoutException"
  shows "fst (forward_request cfg client ''POST'' path body headers stream) =
           Inl (HTTPException 504 ''Backend timeout'')"
  using assms by (simp add: forward_request_post)

lemma forward_request_error:
  assumes "map_of (backends cfg) ''primary'' = Some backend"
    and "\<And>call. client call = RequestError msg"
  shows "fst (forward_request cfg client ''POST'' path body headers stream) =
           Inl (HTTPException 502 (''Backend error: '' @ msg))"
  using assms by (simp add: forward_request_post)

lemma pipeline_streaming:
  assumes "map_of body ''stream'' = Some stream" and "py_truthy stream"
    and "transform_request_value cfg body = Inr transformed_body"
    and "map_of (backends cfg) ''primary'' = Some backend"
    and "\<And>call. http_client ev call = Returned response"
  shows "fst (pipeline cfg ev path default_name authorization (Inr (JObj body))) =
           Inr (StreamingResponse
                  (stream_response (json_loads ev) (json_dumps ev)
                     (dict_get body ''model'' (JStr default_name)) (response_lines response))
                  ''text/event-stream'')"
proof -
  obtain r calls where f: "forward_request cfg (http_client ev) ''POST'' path (Some transformed_body)
       (Some [(''authorization'', case authorization of Some a \<Rightarrow> a | None \<Rightarrow> [])]) stream = (r, calls)"
    by (cases "forward_request cfg (http_client ev) ''POST'' path (Some transformed_body)
       (Some [(''authorization'', case authorization of Some a \<Rightarrow> a | None \<Rightarrow> [])]) stream")
  have "r = Inr response"
    using forward_request_returned [OF assms(4), of "http_client ev" response path
        "Some transformed_body"
        "Some [(''authorization'', case authorization of Some a \<Rightarrow> a | None \<Rightarrow> [])]" stream]
      assms(5) f by simp
  with f assms(1-3) show ?thesis
    by (simp add: pipeline_def dict_get_def)
qed

lemma pipeline_transport_failure:
  assumes "transform_request_value cfg body = Inr transformed_body"
    and "fst (forward_request cfg (http_client ev) ''POST'' path (Some transformed_body)
       (Some [(''authorization'', case authorization of Some a \<Rightarrow> a | None \<Rightarrow> [])])
       (dict_get body ''stream'' (JBool False))) = Inl e"
  shows "fst (pipeline cfg ev path default_name authorization (Inr (JObj body))) = Inl e"
  using assms by (auto simp: pipeline_def Let_def split: prod.splits sum.splits)

lemma chat_completions_swallows:
  assumes "validate_api_key cfg authorization"
    and "fst (pipeline cfg ev ''/v1/chat/completions'' ''gpt-3.5-turbo'' authorization request_json) =
           Inl (HTTPException code detail)"
  shows "fst (chat_completions cfg ev authorization request_json) =
           Inl (HTTPException 500 (exn_str ev (HTTPException code detail)))"
  using assms by (auto simp: chat_completions_def split: prod.splits sum.splits exn.splits)

lemma pipeline_non_streaming_error:
  assumes "\<not> py_truthy (dict_get body ''stream'' (JBool False))"
    and "transform_request_value cfg body = Inr transformed_body"
    and "map_of (backends cfg) ''primary'' = Some backend"
    and "\<And>call. http_client ev call = Returned response"
    and "status_code response \<noteq> 200"
  shows "fst (pipeline cfg ev path default_name authorization (Inr (JObj body))) =
           Inl (HTTPException (status_code response) (response_text response))"
proof -
  let ?hdrs = "Some [(''authorization'', case authorization of Some a \<Rightarrow> a | None \<Rightarrow> [])]"
  let ?stream = "dict_get body ''stream'' (JBool False)"
  obtain r calls where f: "forward_request cfg (http_client ev) ''POST'' path
       (Some transformed_body) ?hdrs ?stream = (r, calls)"
    by (cases "forward_request cfg (http_client ev) ''POST'' path
       (Some transformed_body) ?hdrs ?stream")
  have "r = Inr response"
    using forward_request_returned [OF assms(3), of "http_client ev" response path
        "Some transformed_body" ?hdrs ?stream] assms(4) f by simp
  with f assms(1,2,5) show ?thesis
    by (simp add: pipeline_def)
qed

lemma transport_failure_is_500:
  assumes "validate_api_key cfg authorization"
    and "transform_request_value cfg body = Inr transformed_body"
    and "map_of (backends cfg) ''primary'' = Some backend"
    and "(\<forall>call. http_client ev call = TimeoutException) \<or>
         (\<forall>call. http_client ev call = RequestError msg)"
  shows "client_status (fst (chat_completions cfg ev authorization (Inr (JObj body)))) = 500"
proof -
  let ?f = "fst (forward_request cfg (http_client ev) ''POST'' ''/v1/chat/completions''
       (Some transformed_body)
       (Some [(''authorization'', case authorization of Some a \<Rightarrow> a | None \<Rightarrow> [])])
       (dict_get body ''stream'' (JBool False)))"
  from assms(4) obtain code detail where "?f = Inl (HTTPException code detail)"
    using forward_request_timeout [OF assms(3), of "http_client ev"]
      forward_request_error [OF assms(3), of "http_client ev" msg]
    by metis
  then have "fst (pipeline cfg ev ''/v1/chat/completions'' ''gpt-3.5-turbo'' authorization
                    (Inr (JObj body))) = Inl (HTTPException code detail)"
    using pipeline_transport_failure [OF assms(2)] by simp
  from chat_completions_swallows [OF assms(1) this] show ?thesis by simp
qed

lemma decimal_504: "decimal 504 = ''504''"
  by (simp add: decimal.simps digit_char_def)

lemmas endpoint_eval =
  validate_api_key_def startswith_def example_config_def example_env_def
  transform_request_value_def transform_request_body_def dict_copy_def map_model_name_def
  str_dict_get_def

text \<open>
  Claim C2. \<open>forward_request\<close> raises HTTPException 504 on a timeout and HTTPException
  502, carrying the error's text, on another transport error, as the claim says. The
  client of \<^verbatim>\<open>/v1/chat/completions\<close> sees neither: the handler of line 449 turns both
  into status 500, with \<^verbatim>\<open>str(e)\<close> as the detail, which for the timeout is the text
  \<^verbatim>\<open>504: Backend timeout\<close>.
\<close>

theorem transport_failure_status:
  "fst (forward_request example_config (\<lambda>call. TimeoutException) ''POST''
          ''/v1/chat/completions'' (Some [(''model'', JStr ''llama-3.1-instruct-13b'')])
          (Some [(''authorization'', ''Bearer abc'')]) (JBool False)) =
     Inl (HTTPException 504 ''Backend timeout'') \<and>
   fst (chat_completions example_config (example_env TimeoutException) (Some ''Bearer abc'')
          (Inr (JObj [(''model'', JStr ''gpt-4'')]))) =
     Inl (HTTPException 500 ''504: Backend timeout'') \<and>
   client_status
     (fst (chat_completions example_config (example_env TimeoutException) (Some ''Bearer abc'')
             (Inr (JObj [(''model'', JStr ''gpt-4'')])))) = 500 \<and>
   fst (forward_request example_config (\<lambda>call. RequestError ''connection refused'') ''POST''
          ''/v1/chat/completions'' (Some [(''model'', JStr ''llama-3.1-instruct-13b'')])
          (Some [(''authorization'', ''Bearer abc'')]) (JBool False)) =
     Inl (HTTPException 502 ''Backend error: connection refused'') \<and>
   client_status
     (fst (chat_completions example_config (example_env (RequestError ''connection refused''))
             (Some ''Bearer abc'') (Inr (JObj [(''model'', JStr ''gpt-4'')])))) = 500"
proof -
  have b: "map_of (backends example_config) ''primary'' =
      Some \<lparr>name = ''LM Studio'', url = ''http://10.50.10.14:1234'', enabled = True,
            timeout = 300, max_retries = 3, retry_delay = 1\<rparr>"
    by (simp add: example_config_def)
  have v: "validate_api_key example_config (Some ''Bearer abc'')"
    by (simp add: endpoint_eval)
  have t: "transform_request_value example_config [(''model'', JStr ''gpt-4'')] =
      Inr [(''model'', JStr ''llama-3.1-instruct-13b'')]"
    by (simp add: endpoint_eval)
  have f1: "fst (forward_request example_config (\<lambda>call. TimeoutException) ''POST''
          ''/v1/chat/completions'' (Some [(''model'', JStr ''llama-3.1-instruct-13b'')])
          (Some [(''authorization'', ''Bearer abc'')]) (JBool False)) =
     Inl (HTTPException 504 ''Backend timeout'')"
    by (rule forward_request_timeout [OF b]) simp
  have f2: "fst (forward_request example_config (\<lambda>call. RequestError ''connection refused'')
          ''POST'' ''/v1/chat/completions'' (Some [(''model'', JStr ''llama-3.1-instruct-13b'')])
          (Some [(''authorization'', ''Bearer abc'')]) (JBool False)) =
     Inl (HTTPException 502 ''Backend error: connection refused'')"
    using forward_request_error
      [OF b, of "\<lambda>call. RequestError ''connection refused''" "''connection refused''"]
    by simp
  have p1: "fst (pipeline example_config (example_env TimeoutException) ''/v1/chat/completions''
       ''gpt-3.5-turbo'' (Some ''Bearer abc'') (Inr (JObj [(''model'', JStr ''gpt-4'')]))) =
     Inl (HTTPException 504 ''Backend timeout'')"
    by (rule pipeline_transport_failure [OF t])
       (simp add: forward_request_timeout [OF b] example_env_def)
  have c1: "fst (chat_completions example_config (example_env TimeoutException)
          (Some ''Bearer abc'') (Inr (JObj [(''model'', JStr ''gpt-4'')]))) =
     Inl (HTTPException 500 ''504: Backend timeout'')"
    using chat_completions_swallows [OF v p1]
    by (simp add: example_env_def str_of_exn_def decimal_504)
  have c2: "client_status
     (fst (chat_completions example_config (example_env (RequestError ''connection refused''))
             (Some ''Bearer abc'') (Inr (JObj [(''model'', JStr ''gpt-4'')])))) = 500"
    by (rule transport_failure_is_500 [OF v t b, where msg = "''connection refused''"])
       (simp add: example_env_def)
  from f1 f2 c1 c2 show ?thesis by simp
qed

text \<open>
  Claim C9, as the code has it. For a request that passes the API key check, whose body
  is an object with \<^verbatim>\<open>stream\<close> set to true and is accepted by the request normaliser,
  and for which the backend returns a response, both completion endpoints return a
  streaming response with status 200 and media type \<^verbatim>\<open>text/event-stream\<close> whose content
  is \<open>stream_response\<close> over the lines of the backend's response. The status code of that
  response is never read: the test of lines 440 and 481 comes after the \<^verbatim>\<open>return\<close>
  (lemma \<open>pipeline_non_streaming_error\<close> is the other path).
\<close>

theorem streaming_ignores_backend_status:
  "validate_api_key cfg authorization \<and> map_of body ''stream'' = Some (JBool True) \<and>
   transform_request_value cfg body = Inr transformed_body \<and>
   map_of (backends cfg) ''primary'' = Some backend \<and>
   (\<forall>call. http_client ev call = Returned response) \<longrightarrow>
     fst (chat_completions cfg ev authorization (Inr (JObj body))) =
       Inr (StreamingResponse
              (stream_response (json_loads ev) (json_dumps ev)
                 (dict_get body ''model'' (JStr ''gpt-3.5-turbo'')) (response_lines response))
              ''text/event-stream'') \<and>
     client_status (fst (chat_completions cfg ev authorization (Inr (JObj body)))) = 200 \<and>
     fst (completions cfg ev authorization (Inr (JObj body))) =
       Inr (StreamingResponse
              (stream_response (json_loads ev) (json_dumps ev)
                 (dict_get body ''model'' (JStr ''text-davinci-003'')) (response_lines response))
              ''text/event-stream'') \<and>
     client_status (fst (completions cfg ev authorization (Inr (JObj body)))) = 200"
proof (intro impI)
  assume a: "validate_api_key cfg authorization \<and> map_of body ''stream'' = Some (JBool True) \<and>
   transform_request_value cfg body = Inr transformed_body \<and>
   map_of (backends cfg) ''primary'' = Some backend \<and>
   (\<forall>call. http_client ev call = Returned response)"
  then have p: "\<And>path default_name.
      fst (pipeline cfg ev path default_name authorization (Inr (JObj body))) =
           Inr (StreamingResponse
                  (stream_response (json_loads ev) (json_dumps ev)
                     (dict_get body ''model'' (JStr default_name)) (response_lines response))
                  ''text/event-stream'')"
    using pipeline_streaming [of body "JBool True" cfg transformed_body backend ev response]
    by simp
  have c: "fst (chat_completions cfg ev authorization (Inr (JObj body))) =
       Inr (StreamingResponse
              (stream_response (json_loads ev) (json_dumps ev)
                 (dict_get body ''model'' (JStr ''gpt-3.5-turbo'')) (response_lines response))
              ''text/event-stream'')"
    using a p [of "''/v1/chat/completions''" "''gpt-3.5-turbo''"]
    by (auto simp: chat_completions_def split: prod.splits sum.splits exn.splits)
  have d: "fst (completions cfg ev authorization (Inr (JObj body))) =
       Inr (StreamingResponse
              (stream_response (json_loads ev) (json_dumps ev)
                 (dict_get body ''model'' (JStr ''text-davinci-003'')) (response_lines response))
              ''text/event-stream'')"
    using a p [of "''/v1/completions''" "''text-davinci-003''"]
    by (auto simp: completions_def split: prod.splits sum.splits)
  from c d show "fst (chat_completions cfg ev authorization (Inr (JObj body))) =
       Inr (StreamingResponse
              (stream_response (json_loads ev) (json_dumps ev)
                 (dict_get body ''model'' (JStr ''gpt-3.5-turbo'')) (response_lines response))
              ''text/event-stream'') \<and>
     client_status (fst (chat_completions cfg ev authorization (Inr (JObj body)))) = 200 \<and>
     fst (completions cfg ev authorization (Inr (JObj body))) =
       Inr (StreamingResponse
              (stream_response (json_loads ev) (json_dumps ev)
                 (dict_get body ''model'' (JStr ''text-davinci-003'')) (response_lines response))
              ''text/event-stream'') \<and>
     client_status (fst (completions cfg ev authorization (Inr (JObj body)))) = 200"
    by simp
qed

theorem streaming_ignores_backend_status_witness:
  \<open>status_code (sample_response 500) = 500 \<and>
   fst (chat_completions example_config (example_env (Returned (sample_response 500)))
          (Some ''Bearer abc'')
          (Inr (JObj [(''model'', JStr ''gpt-3.5-turbo''), (''stream'', JBool True)]))) =
     Inr (StreamingResponse ([''data: {"model": "gpt-3.5-turbo"}'' @ [CHR 0x0A, CHR 0x0A],
                              ''data: [DONE]'' @ [CHR 0x0A, CHR 0x0A]], None)
            ''text/event-stream'') \<and>
   client_status
     (fst (chat_completions example_config (example_env (Returned (sample_response 500)))
             (Some ''Bearer abc'')
             (Inr (JObj [(''model'', JStr ''gpt-3.5-turbo''), (''stream'', JBool True)])))) = 200 \<and>
   fst (completions example_config (example_env (Returned (sample_response 500)))
          (Some ''Bearer abc'')
          (Inr (JObj [(''model'', JStr ''gpt-3.5-turbo''), (''stream'', JBool True)]))) =
     Inr (StreamingResponse ([''data: {"model": "gpt-3.5-turbo"}'' @ [CHR 0x0A, CHR 0x0A],
                              ''data: [DONE]'' @ [CHR 0x0A, CHR 0x0A]], None)
            ''text/event-stream'') \<and>
   client_status
     (fst (completions example_config (example_env (Returned (sample_response 500)))
             (Some ''Bearer abc'')
             (Inr (JObj [(''model'', JStr ''gpt-3.5-turbo''), (''stream'', JBool True)])))) = 200\<close>
proof -
  let ?body = "[(''model'', JStr ''gpt-3.5-turbo''), (''stream'', JBool True)]"
  let ?ev = "example_env (Returned (sample_response 500))"
  have b: "map_of (backends example_config) ''primary'' =
      Some \<lparr>name = ''LM Studio'', url = ''http://10.50.10.14:1234'', enabled = True,
            timeout = 300, max_retries = 3, retry_delay = 1\<rparr>"
    by (simp add: example_config_def)
  have v: "validate_api_key example_config (Some ''Bearer abc'')"
    by (simp add: endpoint_eval)
  have s: "map_of ?body ''stream'' = Some (JBool True)" by simp
  have t: "transform_request_value example_config ?body =
      Inr [(''model'', JStr ''llama-3.1-instruct-13b''), (''stream'', JBool True)]"
    by (simp add: endpoint_eval)
  have c: "\<forall>call. http_client ?ev call = Returned (sample_response 500)"
    by (simp add: example_env_def)
  have o: \<open>stream_response (json_loads ?ev) (json_dumps ?ev) (JStr ''gpt-3.5-turbo'')
             (response_lines (sample_response 500)) =
           ([''data: {"model": "gpt-3.5-turbo"}'' @ [CHR 0x0A, CHR 0x0A],
                              ''data: [DONE]'' @ [CHR 0x0A, CHR 0x0A]], None)\<close>
    by (simp add: example_env_def sample_response_def stream_line_def sse_def startswith_def
        py_strip_def is_space_def sample_loads_def sample_dumps_def has_key_def)
  have m1: "dict_get ?body ''model'' (JStr ''gpt-3.5-turbo'') = JStr ''gpt-3.5-turbo''"
    and m2: "dict_get ?body ''model'' (JStr ''text-davinci-003'') = JStr ''gpt-3.5-turbo''"
    by (simp_all add: dict_get_def)
  have code: "status_code (sample_response 500) = 500"
    by (simp add: sample_response_def)
  from streaming_ignores_backend_status
         [of example_config "Some ''Bearer abc''" ?body
             "[(''model'', JStr ''llama-3.1-instruct-13b''), (''stream'', JBool True)]"
             "\<lparr>name = ''LM Studio'', url = ''http://10.50.10.14:1234'', enabled = True,
               timeout = 300, max_retries = 3, retry_delay = 1\<rparr>"
             ?ev "sample_response 500"]
       v s t b c
  show ?thesis unfolding o m1 m2 using code by simp
qed

text \<open>
  The claim was stated for every request whose body has \<^verbatim>\<open>stream\<close> set to true. The
  key check, the request normaliser (line 421) and the call of the backend (line 424) all
  come before the test of \<^verbatim>\<open>stream\<close> (line 433): a streaming request whose \<^verbatim>\<open>model\<close>
  is a list is answered 500, one without a valid key 401, and one whose backend call times
  out 500.
\<close>

theorem streaming_ignores_backend_status_counterexample:
  "client_status
     (fst (chat_completions example_config (example_env (Returned (sample_response 200)))
             (Some ''Bearer abc'')
             (Inr (JObj [(''model'', JArr []), (''stream'', JBool True)])))) = 500 \<and>
   client_status
     (fst (chat_completions example_config (example_env (Returned (sample_response 200)))
             None
             (Inr (JObj [(''model'', JStr ''gpt-3.5-turbo''), (''stream'', JBool True)])))) = 401 \<and>
   client_status
     (fst (chat_completions example_config (example_env TimeoutException)
             (Some ''Bearer abc'')
             (Inr (JObj [(''model'', JStr ''gpt-3.5-turbo''), (''stream'', JBool True)])))) = 500"
proof -
  have v: "validate_api_key example_config (Some ''Bearer abc'')"
    by (simp add: endpoint_eval)
  have b: "map_of (backends example_config) ''primary'' =
      Some \<lparr>name = ''LM Studio'', url = ''http://10.50.10.14:1234'', enabled = True,
            timeout = 300, max_retries = 3, retry_delay = 1\<rparr>"
    by (simp add: example_config_def)
  have t: "transform_request_value example_config
             [(''model'', JStr ''gpt-3.5-turbo''), (''stream'', JBool True)] =
           Inr [(''model'', JStr ''llama-3.1-instruct-13b''), (''stream'', JBool True)]"
    by (simp add: endpoint_eval)
  have u: "transform_request_value example_config
             [(''model'', JArr []), (''stream'', JBool True)] = Inl TypeError"
    by (simp add: endpoint_eval)
  have unhashable: "client_status
     (fst (chat_completions example_config (example_env (Returned (sample_response 200)))
             (Some ''Bearer abc'')
             (Inr (JObj [(''model'', JArr []), (''stream'', JBool True)])))) = 500"
    using v u by (simp add: chat_completions_def pipeline_def)
  have no_key: "client_status
     (fst (chat_completions example_config (example_env (Returned (sample_response 200)))
             None
             (Inr (JObj [(''model'', JStr ''gpt-3.5-turbo''), (''stream'', JBool True)])))) = 401"
    by (simp add: chat_completions_def validate_api_key_def example_config_def)
  have timed_out: "client_status
     (fst (chat_completions example_config (example_env TimeoutException)
             (Some ''Bearer abc'')
             (Inr (JObj [(''model'', JStr ''gpt-3.5-turbo''), (''stream'', JBool True)])))) = 500"
    by (rule transport_failure_is_500 [OF v t b, where msg = "[]"])
       (simp add: example_env_def)
  from unhashable no_key timed_out show ?thesis by simp
qed

end
